theory Spec2Isabelle
  imports Complex_Main "HOL-Library.Word" "HOL-Library.Sublist"
begin

section \<open>JavaScript values used by the wizard\<close>

text \<open>
  A JavaScript string is a sequence of UTF-16 code units. \<open>js\<close> writes an ASCII literal
  as such a sequence; the accented letters of the subject names are given by their code
  unit (all of them are single units: U+00E8, U+00C9, U+00E7, U+00E9).
\<close>

type_synonym jsstring = "16 word list"

definition js :: "string \<Rightarrow> jsstring" where
  "js cs = map (\<lambda>c. word_of_nat (of_char c)) cs"

text \<open>
  \<open>String.prototype.includes\<close>: \<open>str_includes d x\<close> is \<open>d.includes(x)\<close>, true when
  \<open>x\<close> occurs in \<open>d\<close> as a contiguous run of code units (the empty string always does).
\<close>

fun str_includes :: "'a list \<Rightarrow> 'a list \<Rightarrow> bool" where
  "str_includes [] x = (x = [])"
| "str_includes (c # d) x = (prefix x (c # d) \<or> str_includes d x)"

text \<open>Truthiness of a string (\<open>if (s)\<close>, \<open>!studentId\<close>, \<open>s && ...\<close>): only the empty string is falsy.\<close>

definition truthy :: "jsstring \<Rightarrow> bool" where
  "truthy s = (s \<noteq> [])"

text \<open>
  \<open>Math.round\<close> rounds to the nearest integer, a tie going up. The quotients the wizard
  rounds are computed here in exact rational arithmetic; lemmas \<open>form_ratio_no_tie\<close> and
  \<open>global_ratio_no_tie\<close> below show that the exact values stay at least 1/6 away from
  every tie, which the rounding error of the double-precision quotient and product does
  not reach for any list a device can hold.
\<close>

definition Math_round :: "rat \<Rightarrow> int" where
  "Math_round x = \<lfloor>x + 1 / 2\<rfloor>"

section \<open>Data model (src/App.tsx)\<close>

datatype AppStep =
  Welcome | Hub | Scanner | Modules | Form_pedagogy | Form_env | Submitting | Thanks

definition GI_SUBJECTS :: "jsstring list" where
  "GI_SUBJECTS =
    [ js ''Alg'' @ [0xE8] @ js ''bre 1'',
      js ''Algorithmique et Programmation C'',
      js ''Analyse 1'',
      js ''Anglais 1'',
      js ''Circuits '' @ [0xC9] @ js ''lectriques'',
      js ''Circuits '' @ [0xC9] @ js ''lectroniques'',
      js ''Environnement Informatique'',
      js ''Fran'' @ [0xE7] @ js ''ais 1'',
      js ''Introduction au G'' @ [0xE9] @ js ''nie Industriel'',
      js ''M'' @ [0xE9] @ js ''canique g'' @ [0xE9] @ js ''n'' @ [0xE9] @ js ''rale'',
      js ''Probabilit'' @ [0xE9] @ js ''s et Statistiques'' ]"

definition ENVIRONNEMENT_GLOBAL :: jsstring where
  "ENVIRONNEMENT_GLOBAL = js ''ENVIRONNEMENT_GLOBAL''"

text \<open>
  \<open>FeedbackData\<close>: the subject, five pedagogy answers (numbers or null), five environment
  answers (text or numbers, or null) and the free comments. \<open>None\<close> is \<open>null\<close>.
\<close>

record FeedbackData =
  subject :: jsstring
  q1 :: "int option"
  q2 :: "int option"
  q3 :: "int option"
  q4 :: "int option"
  q5 :: "int option"
  q6_jobs :: "jsstring option"
  q7_rooms :: "int option"
  q8_resources :: "int option"
  q9_transport :: "jsstring option"
  q10_laptop :: "jsstring option"
  comments :: jsstring

definition initialFormData :: FeedbackData where
  "initialFormData =
    \<lparr> subject = [], q1 = None, q2 = None, q3 = None, q4 = None, q5 = None,
      q6_jobs = None, q7_rooms = None, q8_resources = None, q9_transport = None,
      q10_laptop = None, comments = [] \<rparr>"

text \<open>An element of the \<open>fields\<close> array of \<open>progressStats\<close>: a number or a text.\<close>

datatype answer = Num int | Str jsstring

record progress =
  percentage :: int
  completed :: nat
  total_fields :: nat

text \<open>\<open>progressStats\<close> (lines 197-204), as a function of the form data it memoises on.\<close>

definition progressStats :: "FeedbackData \<Rightarrow> progress" where
  "progressStats fd =
    (let isEnv = (subject fd = ENVIRONNEMENT_GLOBAL);
         fields =
           (if isEnv
            then [map_option Str (q6_jobs fd), map_option Num (q7_rooms fd),
                  map_option Num (q8_resources fd), map_option Str (q9_transport fd),
                  map_option Str (q10_laptop fd)]
            else [map_option Num (q1 fd), map_option Num (q2 fd), map_option Num (q3 fd),
                  map_option Num (q4 fd), map_option Num (q5 fd)]);
         completed = length (filter (\<lambda>v. v \<noteq> None) fields)
     in \<lparr> percentage = Math_round ((of_nat completed / 5) * 100),
          completed = completed, total_fields = 5 \<rparr>)"

text \<open>
  The count the specification speaks of: the non-null answers among the five fields that
  belong to the subject (q6..q10 for the environment audit, q1..q5 otherwise).
\<close>

definition is_set :: "'a option \<Rightarrow> nat" where
  "is_set v = (case v of None \<Rightarrow> 0 | Some _ \<Rightarrow> 1)"

definition non_null_count :: "FeedbackData \<Rightarrow> nat" where
  "non_null_count fd =
    (if subject fd = ENVIRONNEMENT_GLOBAL
     then is_set (q6_jobs fd) + is_set (q7_rooms fd) + is_set (q8_resources fd)
          + is_set (q9_transport fd) + is_set (q10_laptop fd)
     else is_set (q1 fd) + is_set (q2 fd) + is_set (q3 fd) + is_set (q4 fd) + is_set (q5 fd))"

text \<open>Lines 253-257: the global progress shown on the hub.\<close>

definition totalStepsCount :: nat where
  "totalStepsCount = length GI_SUBJECTS + 1"

definition currentProgressCount :: "jsstring list \<Rightarrow> bool \<Rightarrow> nat" where
  "currentProgressCount completedSubjects envAuditDone =
    length completedSubjects + (if envAuditDone then 1 else 0)"

definition globalProgression :: "jsstring list \<Rightarrow> bool \<Rightarrow> int" where
  "globalProgression completedSubjects envAuditDone =
    Math_round ((of_nat (currentProgressCount completedSubjects envAuditDone)
                 / of_nat totalStepsCount) * 100)"

definition firstUncompleted :: "jsstring list \<Rightarrow> jsstring option" where
  "firstUncompleted completedSubjects =
    find (\<lambda>s. s \<notin> set completedSubjects) GI_SUBJECTS"

section \<open>The wizard's state and its collaborators\<close>

text \<open>
  The entry of the on-device store under \<open>DRAFT_KEY\<close>. The stored text is represented by
  what reading it gives: no entry (\<open>getItem\<close> returns null), a text that \<open>JSON.parse\<close>
  turns into a form record (what \<open>JSON.stringify\<close> wrote: a record of strings, integers
  and nulls is read back unchanged), or a text on which \<open>JSON.parse\<close> throws.
\<close>

datatype storage_entry = Absent | Json FeedbackData | Unparsable

text \<open>Calls that leave the component, in the order they are made.\<close>

datatype call =
    ScrollToTop
  | SaveFeedback FeedbackData jsstring
  | AnalyzeFeedback FeedbackData
  | SendAnalysisToAdmin FeedbackData
  | RemoveDraft
  | ConsoleError
  | Alert
  | DownloadHistoryCSV

datatype error = StudentNotInitialized | Rejected

text \<open>
  The outcome of each remote call, success or rejection; the analysis result is opaque
  (type \<open>'an\<close>).
\<close>

record 'an backend =
  saveFeedback :: "FeedbackData \<Rightarrow> jsstring \<Rightarrow> error + jsstring"
  analyzeFeedback :: "FeedbackData \<Rightarrow> error + 'an"
  sendAnalysisToAdmin :: "FeedbackData \<Rightarrow> 'an \<Rightarrow> error + unit"

text \<open>
  The state variables of \<open>App\<close> (lines 127-135 and 148), the draft entry of the store and
  the log of outgoing calls. The three statistics shown in the admin panel are display
  values that no handler reads; they are left out.
\<close>

record app =
  step :: AppStep
  sidebarOpen :: bool
  showValidationErrors :: bool
  completedSubjects :: "jsstring list"
  envAuditDone :: bool
  lastSubmissionId :: jsstring
  adminPasswordInput :: jsstring
  isAdminAuthenticated :: bool
  studentId :: jsstring
  formData :: FeedbackData
  draft_entry :: storage_entry
  calls :: "call list"

definition log_call :: "call \<Rightarrow> app \<Rightarrow> app" where
  "log_call c s = s\<lparr>calls := calls s @ [c]\<rparr>"

text \<open>Lines 148-155: the initial form data is the stored draft when there is one.\<close>

definition load_draft :: "storage_entry \<Rightarrow> FeedbackData" where
  "load_draft e =
    (case e of Absent \<Rightarrow> initialFormData | Json d \<Rightarrow> d | Unparsable \<Rightarrow> initialFormData)"

text \<open>
  Lines 157-159: after every render in which the form data is a new object, the draft is
  stored. Every \<open>setFormData\<close> of the component passes a fresh object, so the effect
  runs after each of them, and once after mounting.
\<close>

definition draft_effect :: "app \<Rightarrow> app" where
  "draft_effect s = s\<lparr>draft_entry := Json (formData s)\<rparr>"

definition setFormData :: "FeedbackData \<Rightarrow> app \<Rightarrow> app" where
  "setFormData fd s = draft_effect (s\<lparr>formData := fd\<rparr>)"

text \<open>Mounting the component over a store: every state variable at its initial value.\<close>

definition mount :: "storage_entry \<Rightarrow> app" where
  "mount e =
    draft_effect
      \<lparr> step = Welcome, sidebarOpen = False, showValidationErrors = False,
        completedSubjects = [], envAuditDone = False, lastSubmissionId = [],
        adminPasswordInput = [], isAdminAuthenticated = False, studentId = [],
        formData = load_draft e, draft_entry = e, calls = [] \<rparr>"

text \<open>Reloading the page: the store survives, everything else starts again.\<close>

definition reload :: "app \<Rightarrow> app" where
  "reload s = mount (draft_entry s)"

text \<open>Lines 161-171: the effect that awaits \<open>initStudent\<close>, given its outcome.\<close>

definition setup_student :: "error + jsstring \<Rightarrow> app \<Rightarrow> app" where
  "setup_student r s =
    (case r of Inr ident \<Rightarrow> s\<lparr>studentId := ident\<rparr> | Inl err \<Rightarrow> log_call ConsoleError s)"

text \<open>
  Lines 173-191: \<open>refreshStats\<close>, given the subjects of the history entries, or the
  failure of one of the four queries.
\<close>

definition refreshStats :: "error + jsstring list \<Rightarrow> app \<Rightarrow> app" where
  "refreshStats r s =
    (case r of
       Inr feedbackHistory \<Rightarrow>
         s\<lparr>completedSubjects := filter (\<lambda>e. e \<noteq> ENVIRONNEMENT_GLOBAL) feedbackHistory,
           envAuditDone := list_ex (\<lambda>e. e = ENVIRONNEMENT_GLOBAL) feedbackHistory\<rparr>
     | Inl err \<Rightarrow> log_call ConsoleError s)"

datatype status = Termine | En_cours | A_faire

definition getSubjectStatus :: "app \<Rightarrow> jsstring \<Rightarrow> status" where
  "getSubjectStatus s name =
    (if name \<in> set (completedSubjects s) then Termine
     else if subject (formData s) = name \<and> completed (progressStats (formData s)) > 0
     then En_cours
     else A_faire)"

definition startPedagogy :: "jsstring \<Rightarrow> app \<Rightarrow> app" where
  "startPedagogy subj s =
    (let s1 = (if subject (formData s) \<noteq> subj
               then setFormData (initialFormData\<lparr>subject := subj\<rparr>) s else s)
     in log_call ScrollToTop (s1\<lparr>step := Form_pedagogy, showValidationErrors := False\<rparr>))"

definition startEnvAudit :: "app \<Rightarrow> app" where
  "startEnvAudit s =
    (let s1 = (if subject (formData s) \<noteq> ENVIRONNEMENT_GLOBAL
               then setFormData (initialFormData\<lparr>subject := ENVIRONNEMENT_GLOBAL\<rparr>) s
               else s)
     in log_call ScrollToTop (s1\<lparr>step := Form_env, showValidationErrors := False\<rparr>))"

text \<open>
  The statements of \<open>handleFormSubmit\<close> after the validation (lines 237-247) that can
  throw are, in this order, the student check (line 239) and the three awaited calls
  (lines 241, 243 and 244).
\<close>

datatype stage = Student_check | Save | Analyze | Notify

fun stage_no :: "stage \<Rightarrow> nat" where
  "stage_no Student_check = 0"
| "stage_no Save = 1"
| "stage_no Analyze = 2"
| "stage_no Notify = 3"

text \<open>
  Line 248 is a \<open>catch\<close> clause, and no line of the handler opens the \<open>try\<close> block it
  closes. Which statements the clause guards is therefore not fixed by the file. The
  model fixes none of the possibilities and takes the place of the opening as a
  parameter: before the student check (or earlier), before the save, before the analysis,
  before the notification, or after it, where nothing that throws is guarded (this is
  also the behaviour when the clause guards nothing at all).
\<close>

datatype try_place =
  Try_before_check | Try_before_save | Try_before_analyze | Try_before_notify
  | Try_after_notify

fun first_guarded :: "try_place \<Rightarrow> nat" where
  "first_guarded Try_before_check = 0"
| "first_guarded Try_before_save = 1"
| "first_guarded Try_before_analyze = 2"
| "first_guarded Try_before_notify = 3"
| "first_guarded Try_after_notify = 4"

definition guarded :: "try_place \<Rightarrow> stage \<Rightarrow> bool" where
  "guarded tp st = (first_guarded tp \<le> stage_no st)"

text \<open>
  Lines 238-247: the state reached, and, when a statement throws, that statement and the
  error, with the state as the throw left it.
\<close>

definition submission :: "'an backend \<Rightarrow> app \<Rightarrow> (stage \<times> error) option \<times> app" where
  "submission env s =
    (if \<not> truthy (studentId s) then (Some (Student_check, StudentNotInitialized), s)
     else
       let s1 = log_call (SaveFeedback (formData s) (studentId s)) s in
       (case saveFeedback env (formData s) (studentId s) of
          Inl err \<Rightarrow> (Some (Save, err), s1)
        | Inr ident \<Rightarrow>
            let s2 = log_call (AnalyzeFeedback (formData s)) (s1\<lparr>lastSubmissionId := ident\<rparr>) in
            (case analyzeFeedback env (formData s) of
               Inl err \<Rightarrow> (Some (Analyze, err), s2)
             | Inr analysis \<Rightarrow>
                 let s3 = log_call (SendAnalysisToAdmin (formData s)) s2 in
                 (case sendAnalysisToAdmin env (formData s) analysis of
                    Inl err \<Rightarrow> (Some (Notify, err), s3)
                  | Inr _ \<Rightarrow>
                      let s4 = (log_call RemoveDraft s3)\<lparr>draft_entry := Absent\<rparr> in
                      (None, (setFormData initialFormData s4)\<lparr>step := Thanks\<rparr>)))))"

text \<open>
  Lines 230-251, for a given place of the missing \<open>try\<close>. A guarded error runs the catch
  clause, which sets the step to \<open>Thanks\<close>. An error that is not guarded rejects the
  promise of the handler, which nothing awaits: the state stays as the throw left it.
\<close>

definition handleFormSubmit :: "try_place \<Rightarrow> 'an backend \<Rightarrow> app \<Rightarrow> app" where
  "handleFormSubmit tp env s =
    (if completed (progressStats (formData s)) < 5
     then log_call ScrollToTop (s\<lparr>showValidationErrors := True\<rparr>)
     else
       (case submission env (s\<lparr>step := Submitting\<rparr>) of
          (None, s') \<Rightarrow> s'
        | (Some (st, err), s') \<Rightarrow> if guarded tp st then s'\<lparr>step := Thanks\<rparr> else s'))"

text \<open>Line 263: what the scanner does with a decoded payload.\<close>

definition onScan :: "jsstring \<Rightarrow> app \<Rightarrow> app" where
  "onScan d s =
    (case find (\<lambda>x. str_includes d x) GI_SUBJECTS of
       None \<Rightarrow> s
     | Some subj \<Rightarrow> if truthy subj then startPedagogy subj s else s)"

section \<open>Events: the controls each screen renders\<close>

text \<open>The \<open>onChange\<close> of a question card or of the comment box (lines 513-532).\<close>

datatype edit =
    Edit_q1 int | Edit_q2 int | Edit_q3 int | Edit_q4 int | Edit_q5 int
  | Edit_q6_jobs jsstring | Edit_q7_rooms int | Edit_q8_resources int
  | Edit_q9_transport jsstring | Edit_q10_laptop jsstring
  | Edit_comments jsstring

fun apply_edit :: "edit \<Rightarrow> FeedbackData \<Rightarrow> FeedbackData" where
  "apply_edit (Edit_q1 v) fd = fd\<lparr>q1 := Some v\<rparr>"
| "apply_edit (Edit_q2 v) fd = fd\<lparr>q2 := Some v\<rparr>"
| "apply_edit (Edit_q3 v) fd = fd\<lparr>q3 := Some v\<rparr>"
| "apply_edit (Edit_q4 v) fd = fd\<lparr>q4 := Some v\<rparr>"
| "apply_edit (Edit_q5 v) fd = fd\<lparr>q5 := Some v\<rparr>"
| "apply_edit (Edit_q6_jobs v) fd = fd\<lparr>q6_jobs := Some v\<rparr>"
| "apply_edit (Edit_q7_rooms v) fd = fd\<lparr>q7_rooms := Some v\<rparr>"
| "apply_edit (Edit_q8_resources v) fd = fd\<lparr>q8_resources := Some v\<rparr>"
| "apply_edit (Edit_q9_transport v) fd = fd\<lparr>q9_transport := Some v\<rparr>"
| "apply_edit (Edit_q10_laptop v) fd = fd\<lparr>q10_laptop := Some v\<rparr>"
| "apply_edit (Edit_comments v) fd = fd\<lparr>comments := v\<rparr>"

text \<open>Which card is on which form: q1..q5 on the pedagogy form, q6..q10 on the other.\<close>

fun edit_shown :: "AppStep \<Rightarrow> edit \<Rightarrow> bool" where
  "edit_shown st (Edit_comments v) = (st = Form_pedagogy \<or> st = Form_env)"
| "edit_shown st (Edit_q6_jobs v) = (st = Form_env)"
| "edit_shown st (Edit_q7_rooms v) = (st = Form_env)"
| "edit_shown st (Edit_q8_resources v) = (st = Form_env)"
| "edit_shown st (Edit_q9_transport v) = (st = Form_env)"
| "edit_shown st (Edit_q10_laptop v) = (st = Form_env)"
| "edit_shown st e = (st = Form_pedagogy)"

text \<open>
  The user's actions and the completions of the two start-up effects. The header and the
  admin panel are rendered on every screen; the other controls belong to one screen.
\<close>

datatype event =
    Header_logo | Menu_button | Sidebar_close
  | Password_input jsstring | Authenticate | Export_csv
  | Welcome_start
  | Hub_scanner | Hub_subject jsstring | Hub_environment | Hub_next
  | Scanned jsstring | Scanner_close
  | Form_back | Form_edit edit | Form_submit
  | Thanks_back
  | Student_result "error + jsstring" | Stats_result "error + jsstring list"

text \<open>
  \<open>fire tp env e s\<close> is the state after event \<open>e\<close>, and \<open>None\<close> when the control of \<open>e\<close>
  is not rendered in \<open>s\<close>.
\<close>

fun fire :: "try_place \<Rightarrow> 'an backend \<Rightarrow> event \<Rightarrow> app \<Rightarrow> app option" where
  "fire tp env Header_logo s = Some (s\<lparr>step := Welcome\<rparr>)"
| "fire tp env Menu_button s = Some (s\<lparr>sidebarOpen := True\<rparr>)"
| "fire tp env Sidebar_close s = Some (s\<lparr>sidebarOpen := False\<rparr>)"
| "fire tp env (Password_input v) s =
    (if isAdminAuthenticated s then None else Some (s\<lparr>adminPasswordInput := v\<rparr>))"
| "fire tp env Authenticate s =
    (if isAdminAuthenticated s then None
     else if adminPasswordInput s = js ''ADMIN2026''
     then Some (s\<lparr>isAdminAuthenticated := True\<rparr>)
     else Some (log_call Alert s))"
| "fire tp env Export_csv s =
    (if isAdminAuthenticated s then Some (log_call DownloadHistoryCSV s) else None)"
| "fire tp env Welcome_start s = (if step s = Welcome then Some (s\<lparr>step := Hub\<rparr>) else None)"
| "fire tp env Hub_scanner s = (if step s = Hub then Some (s\<lparr>step := Scanner\<rparr>) else None)"
| "fire tp env (Hub_subject x) s =
    (if step s = Hub \<and> x \<in> set GI_SUBJECTS
     then (let isDone = (getSubjectStatus s x = Termine)
           in Some (if \<not> isDone then startPedagogy x s else s))
     else None)"
| "fire tp env Hub_environment s = (if step s = Hub then Some (startEnvAudit s) else None)"
| "fire tp env Hub_next s =
    (if step s = Hub
     then (case firstUncompleted (completedSubjects s) of
             None \<Rightarrow> None
           | Some x \<Rightarrow> if truthy x then Some (startPedagogy x s) else None)
     else None)"
| "fire tp env (Scanned d) s = (if step s = Scanner then Some (onScan d s) else None)"
| "fire tp env Scanner_close s = (if step s = Scanner then Some (s\<lparr>step := Hub\<rparr>) else None)"
| "fire tp env Form_back s =
    (if step s = Form_pedagogy \<or> step s = Form_env then Some (s\<lparr>step := Hub\<rparr>) else None)"
| "fire tp env (Form_edit e) s =
    (if edit_shown (step s) e then Some (setFormData (apply_edit e (formData s)) s) else None)"
| "fire tp env Form_submit s =
    (if step s = Form_pedagogy \<or> step s = Form_env then Some (handleFormSubmit tp env s)
     else None)"
| "fire tp env Thanks_back s = (if step s = Thanks then Some (s\<lparr>step := Hub\<rparr>) else None)"
| "fire tp env (Student_result r) s = Some (setup_student r s)"
| "fire tp env (Stats_result r) s = Some (refreshStats r s)"

text \<open>A backend on which every remote call is rejected.\<close>

definition failing_backend :: "unit backend" where
  "failing_backend =
    \<lparr> saveFeedback = (\<lambda>fd sid. Inl Rejected), analyzeFeedback = (\<lambda>fd. Inl Rejected),
      sendAnalysisToAdmin = (\<lambda>fd an. Inl Rejected) \<rparr>"

text \<open>A sequence of events, from left to right; \<open>None\<close> when one of them cannot occur.\<close>

fun run :: "try_place \<Rightarrow> 'an backend \<Rightarrow> event list \<Rightarrow> app \<Rightarrow> app option" where
  "run tp env [] s = Some s"
| "run tp env (e # es) s = (case fire tp env e s of None \<Rightarrow> None | Some s' \<Rightarrow> run tp env es s')"

text \<open>A backend that accepts every call.\<close>

definition accepting_backend :: "unit backend" where
  "accepting_backend =
    \<lparr> saveFeedback = (\<lambda>fd sid. Inr (js ''fb-1'')), analyzeFeedback = (\<lambda>fd. Inr ()),
      sendAnalysisToAdmin = (\<lambda>fd an. Inr ()) \<rparr>"

section \<open>Concrete inputs\<close>

definition Analyse_1 :: jsstring where
  "Analyse_1 = js ''Analyse 1''"

definition full_form :: FeedbackData where
  "full_form = initialFormData\<lparr>subject := Analyse_1, q1 := Some 4, q2 := Some 5,
     q3 := Some 3, q4 := Some 4, q5 := Some 1\<rparr>"

definition partial_form :: FeedbackData where
  "partial_form = initialFormData\<lparr>subject := Analyse_1, q1 := Some 4, q3 := Some 2\<rparr>"

definition fill_two :: "event list" where
  "fill_two = [Welcome_start, Hub_subject Analyse_1, Form_edit (Edit_q1 4), Form_edit (Edit_q3 2)]"

definition student_1 :: jsstring where
  "student_1 = js ''stu-1''"

definition fill_and_submit :: "event list" where
  "fill_and_submit =
    [Student_result (Inr student_1), Welcome_start, Hub_subject Analyse_1,
     Form_edit (Edit_q1 4), Form_edit (Edit_q2 5), Form_edit (Edit_q3 3),
     Form_edit (Edit_q4 4), Form_edit (Edit_q5 1), Form_submit]"

definition form_state :: "FeedbackData \<Rightarrow> app" where
  "form_state fd = (mount (Json fd))\<lparr>step := Form_pedagogy\<rparr>"

definition signed_in :: "FeedbackData \<Rightarrow> app" where
  "signed_in fd = (form_state fd)\<lparr>studentId := student_1\<rparr>"

definition scanner_state :: app where
  "scanner_state = (mount Absent)\<lparr>step := Scanner\<rparr>"

definition thanks_state :: app where
  "thanks_state = (mount Absent)\<lparr>step := Thanks\<rparr>"

definition payload_one :: jsstring where
  "payload_one = js ''ISGI/Analyse 1''"

definition payload_none :: jsstring where
  "payload_none = js ''ISGI/Chimie''"

definition payload_two :: jsstring where
  "payload_two = js ''Anglais 1 + Analyse 1''"

definition draft_state :: app where
  "draft_state =
    \<lparr> step = Form_pedagogy, sidebarOpen = False, showValidationErrors = False,
      completedSubjects = [], envAuditDone = False, lastSubmissionId = [],
      adminPasswordInput = [], isAdminAuthenticated = False, studentId = [],
      formData = partial_form, draft_entry = Json partial_form, calls = [ScrollToTop] \<rparr>"

definition audit_done :: "event list" where
  "audit_done = [Stats_result (Inr [ENVIRONNEMENT_GLOBAL]), Welcome_start]"

section \<open>Basic facts\<close>

lemma str_includes_iff: "str_includes d x \<longleftrightarrow> (\<exists>p q. d = p @ x @ q)"
proof -
  have "str_includes d x \<longleftrightarrow> sublist x d"
    by (induction d) (auto simp: sublist_Cons_right)
  then show ?thesis by (simp add: sublist_def)
qed

lemma GI_SUBJECTS_nonempty: "[] \<notin> set GI_SUBJECTS"
  by (simp add: GI_SUBJECTS_def js_def)

lemma GI_SUBJECTS_distinct: "distinct GI_SUBJECTS"
  by (simp add: GI_SUBJECTS_def js_def)

lemma length_GI_SUBJECTS: "length GI_SUBJECTS = 11"
  by (simp add: GI_SUBJECTS_def)

lemma completed_count: "completed (progressStats fd) = non_null_count fd"
  by (simp add: progressStats_def non_null_count_def is_set_def Let_def split: option.splits)

lemma non_null_count_le: "non_null_count fd \<le> 5"
  by (simp add: non_null_count_def is_set_def split: option.splits)

lemma Math_round_eq_round: "Math_round x = round x"
  by (simp add: Math_round_def round_def)

lemma Math_round_form: "Math_round ((of_nat c / 5) * 100) = 20 * int c"
proof -
  have "(of_nat c / 5) * 100 = (of_int (20 * int c) :: rat)" by simp
  then show ?thesis unfolding Math_round_eq_round by (simp only: round_of_int)
qed

lemma percentage_eq: "percentage (progressStats fd) = 20 * int (non_null_count fd)"
  using completed_count [of fd] Math_round_form [of "non_null_count fd"]
  by (simp add: progressStats_def Let_def)

lemma round_spec: "round (100 * of_nat c / 5 :: rat) = 20 * int c"
proof -
  have "(100 * of_nat c / 5 :: rat) = of_int (20 * int c)" by simp
  then show ?thesis by (simp only: round_of_int)
qed

lemma global_round: "Math_round ((of_nat c / 12) * 100) = (50 * int c + 3) div 6"
proof -
  have "(of_nat c / 12) * 100 + 1 / 2 = (of_int (50 * int c + 3) / of_int 6 :: rat)"
    by simp
  then show ?thesis unfolding Math_round_def by (simp only: floor_divide_of_int_eq)
qed

lemma form_ratio_no_tie: "\<bar>(of_nat c / 5) * 100 - (of_int m + 1 / 2)\<bar> \<ge> (1 / 2 :: rat)"
proof -
  have e: "(of_nat c / 5) * 100 - (of_int m + 1 / 2) = (of_int (40 * int c - 2 * m - 1) / 2 :: rat)"
    by (simp add: field_simps)
  have "40 * int c - 2 * m - 1 \<noteq> 0" by presburger
  then have "\<bar>40 * int c - 2 * m - 1\<bar> \<ge> 1" by linarith
  then have "\<bar>of_int (40 * int c - 2 * m - 1) :: rat\<bar> \<ge> 1"
    by (metis of_int_abs of_int_1_le_iff)
  then show ?thesis unfolding e by simp
qed

lemma global_ratio_no_tie:
  "\<bar>(of_nat c / of_nat totalStepsCount) * 100 - (of_int m + 1 / 2)\<bar> \<ge> (1 / 6 :: rat)"
proof -
  have e: "(of_nat c / of_nat totalStepsCount) * 100 - (of_int m + 1 / 2)
           = (of_int (50 * int c - 6 * m - 3) / 6 :: rat)"
    by (simp add: totalStepsCount_def length_GI_SUBJECTS field_simps)
  have "50 * int c - 6 * m - 3 \<noteq> 0" by presburger
  then have "\<bar>50 * int c - 6 * m - 3\<bar> \<ge> 1" by linarith
  then have "\<bar>of_int (50 * int c - 6 * m - 3) :: rat\<bar> \<ge> 1"
    by (metis of_int_abs of_int_1_le_iff)
  then show ?thesis unfolding e by simp
qed

lemma ratio_percent: "(a / b) * 100 = (100 * a / b :: rat)"
  by simp

subsection \<open>The stored draft follows the form data\<close>

lemma mount_saved: "draft_entry (mount e) = Json (formData (mount e))"
  by (simp add: mount_def draft_effect_def)

lemma startPedagogy_saved:
  "draft_entry s = Json (formData s) \<Longrightarrow>
   draft_entry (startPedagogy x s) = Json (formData (startPedagogy x s))"
  by (simp add: startPedagogy_def setFormData_def draft_effect_def log_call_def Let_def)

lemma startEnvAudit_saved:
  "draft_entry s = Json (formData s) \<Longrightarrow>
   draft_entry (startEnvAudit s) = Json (formData (startEnvAudit s))"
  by (simp add: startEnvAudit_def setFormData_def draft_effect_def log_call_def Let_def)

lemma submission_saved:
  "draft_entry s = Json (formData s) \<Longrightarrow> submission env s = (r, s') \<Longrightarrow>
   draft_entry s' = Json (formData s')"
  by (auto simp: submission_def Let_def log_call_def setFormData_def draft_effect_def
      split: if_splits sum.splits)

lemma handleFormSubmit_saved:
  assumes "draft_entry s = Json (formData s)"
  shows "draft_entry (handleFormSubmit tp env s) = Json (formData (handleFormSubmit tp env s))"
proof (cases "completed (progressStats (formData s)) < 5")
  case True
  then show ?thesis using assms by (simp add: handleFormSubmit_def log_call_def)
next
  case False
  obtain r s' where sub: "submission env (s\<lparr>step := Submitting\<rparr>) = (r, s')"
    by (cases "submission env (s\<lparr>step := Submitting\<rparr>)")
  have "draft_entry (s\<lparr>step := Submitting\<rparr>) = Json (formData (s\<lparr>step := Submitting\<rparr>))"
    using assms by simp
  from submission_saved [OF this sub] have "draft_entry s' = Json (formData s')" .
  then show ?thesis using False sub
    by (cases r) (auto simp: handleFormSubmit_def)
qed

lemma onScan_saved:
  "draft_entry s = Json (formData s) \<Longrightarrow> draft_entry (onScan d s) = Json (formData (onScan d s))"
  by (simp add: onScan_def startPedagogy_saved split: option.splits)

lemma fire_saved:
  assumes "draft_entry s = Json (formData s)" and "fire tp env e s = Some s'"
  shows "draft_entry s' = Json (formData s')"
proof (cases e)
  case (Hub_subject x)
  then show ?thesis using assms
    by (auto simp: Let_def startPedagogy_saved split: if_splits)
next
  case Hub_environment
  then show ?thesis using assms by (auto simp: startEnvAudit_saved split: if_splits)
next
  case Hub_next
  then show ?thesis using assms
    by (auto simp: startPedagogy_saved split: if_splits option.splits)
next
  case (Scanned d)
  then show ?thesis using assms by (auto simp: onScan_saved split: if_splits)
next
  case (Form_edit ed)
  then show ?thesis using assms
    by (auto simp: setFormData_def draft_effect_def split: if_splits)
next
  case Form_submit
  then show ?thesis using assms by (auto simp: handleFormSubmit_saved split: if_splits)
next
  case (Student_result r)
  then show ?thesis using assms
    by (auto simp: setup_student_def log_call_def split: sum.splits)
next
  case (Stats_result r)
  then show ?thesis using assms
    by (auto simp: refreshStats_def log_call_def split: sum.splits)
qed (use assms in \<open>auto simp: log_call_def split: if_splits\<close>)

lemma run_saved:
  "draft_entry s = Json (formData s) \<Longrightarrow> run tp env es s = Some s' \<Longrightarrow>
   draft_entry s' = Json (formData s')"
proof (induction es arbitrary: s)
  case Nil
  then show ?case by simp
next
  case (Cons e es)
  then show ?case by (auto split: option.splits dest: fire_saved)
qed

lemma reload_formData:
  "draft_entry s = Json (formData s) \<Longrightarrow> formData (reload s) = formData s"
  by (simp add: reload_def mount_def draft_effect_def load_draft_def)

lemma startPedagogy_same: "formData (startPedagogy (subject (formData s)) s) = formData s"
  by (simp add: startPedagogy_def log_call_def)

lemma startEnvAudit_same:
  "subject (formData s) = ENVIRONNEMENT_GLOBAL \<Longrightarrow> formData (startEnvAudit s) = formData s"
  by (simp add: startEnvAudit_def log_call_def)

subsection \<open>Scanning and submitting\<close>

lemma find_first_match:
  "filter P xs \<noteq> [] \<Longrightarrow> find P xs = Some (hd (filter P xs))"
  by (induction xs) auto

lemma find_no_match: "filter P xs = [] \<Longrightarrow> find P xs = None"
  by (induction xs) (auto split: if_splits)

lemma startPedagogy_subject: "subject (formData (startPedagogy x s)) = x"
  by (simp add: startPedagogy_def setFormData_def draft_effect_def log_call_def Let_def)

lemma startPedagogy_step: "step (startPedagogy x s) = Form_pedagogy"
  by (simp add: startPedagogy_def setFormData_def draft_effect_def log_call_def Let_def)

lemma onScan_match:
  assumes "filter (str_includes d) GI_SUBJECTS \<noteq> []"
  shows "onScan d s = startPedagogy (hd (filter (str_includes d) GI_SUBJECTS)) s"
proof -
  let ?x = "hd (filter (str_includes d) GI_SUBJECTS)"
  have "?x \<in> set (filter (str_includes d) GI_SUBJECTS)" using assms by (rule hd_in_set)
  then have "?x \<in> set GI_SUBJECTS" by simp
  then have "?x \<noteq> []" using GI_SUBJECTS_nonempty by metis
  then have "truthy ?x" by (simp add: truthy_def)
  then show ?thesis using find_first_match [OF assms] by (simp add: onScan_def)
qed

lemma onScan_no_match:
  assumes "filter (str_includes d) GI_SUBJECTS = []"
  shows "onScan d s = s"
  using find_no_match [OF assms] by (simp add: onScan_def)

lemma guarded_before_check: "guarded Try_before_check st"
  by (simp add: guarded_def)

lemma submission_step:
  "submission env s = (None, s') \<Longrightarrow> step s' = Thanks"
  by (auto simp: submission_def Let_def log_call_def setFormData_def draft_effect_def
      split: if_splits sum.splits)

lemma handleFormSubmit_full_step:
  "\<not> completed (progressStats (formData s)) < 5 \<Longrightarrow>
   step (handleFormSubmit Try_before_check env s) = Thanks"
  by (auto simp: handleFormSubmit_def guarded_before_check dest: submission_step
      split: prod.splits option.splits)

lemma submission_calls:
  "submission env s = (r, s') \<Longrightarrow> calls s' \<noteq> calls s @ [ScrollToTop]"
  by (auto simp: submission_def Let_def log_call_def setFormData_def draft_effect_def
      split: if_splits sum.splits)

lemma handleFormSubmit_full_calls:
  "\<not> completed (progressStats (formData s)) < 5 \<Longrightarrow>
   calls (handleFormSubmit tp env s) \<noteq> calls s @ [ScrollToTop]"
  by (auto simp: handleFormSubmit_def dest: submission_calls split: prod.splits option.splits)

text \<open>
  When the \<open>catch\<close> clause guards the student check and the three calls, a full form
  always ends on the thanks screen, whatever the backend answers.
\<close>

lemma submit_reaches_thanks_when_guarded:
  assumes "non_null_count (formData s) = 5"
  shows "step (handleFormSubmit Try_before_check env s) = Thanks"
  using assms handleFormSubmit_full_step [of s env] by (simp add: completed_count)

lemma form_state_simps:
  "step (form_state fd) = Form_pedagogy" "formData (form_state fd) = fd"
  "studentId (form_state fd) = []" "calls (form_state fd) = []"
  "draft_entry (form_state fd) = Json fd" "showValidationErrors (form_state fd) = False"
  by (simp_all add: form_state_def mount_def draft_effect_def load_draft_def)

lemma hub_subject_done_disabled:
  "step s = Hub \<Longrightarrow> x \<in> set GI_SUBJECTS \<Longrightarrow> x \<in> set (completedSubjects s) \<Longrightarrow>
   fire tp env (Hub_subject x) s = Some s"
  by (simp add: getSubjectStatus_def)

lemma hub_env_not_guarded:
  "step s = Hub \<Longrightarrow> fire tp env Hub_environment s = Some (startEnvAudit s)"
  by simp

subsection \<open>Evaluation on the concrete inputs\<close>

lemma Analyse_1_in: "Analyse_1 \<in> set GI_SUBJECTS"
  by (simp add: Analyse_1_def GI_SUBJECTS_def)

lemma Analyse_1_not_env: "Analyse_1 \<noteq> ENVIRONNEMENT_GLOBAL"
  by (simp add: Analyse_1_def ENVIRONNEMENT_GLOBAL_def js_def)

lemma Analyse_1_not_empty: "Analyse_1 \<noteq> []"
  by (simp add: Analyse_1_def js_def)

lemma full_form_count: "non_null_count full_form = 5"
  by (simp add: non_null_count_def full_form_def initialFormData_def is_set_def
      Analyse_1_not_env)

lemma partial_form_count: "non_null_count partial_form = 2"
  by (simp add: non_null_count_def partial_form_def initialFormData_def is_set_def
      Analyse_1_not_env)

lemma student_1_not_empty: "student_1 \<noteq> []"
  by (simp add: student_1_def js_def)

lemma signed_in_simps:
  "step (signed_in fd) = Form_pedagogy" "formData (signed_in fd) = fd"
  "studentId (signed_in fd) = student_1" "calls (signed_in fd) = []"
  by (simp_all add: signed_in_def form_state_simps)

lemmas submit_simps =
  handleFormSubmit_def submission_def completed_count full_form_count signed_in_simps
  form_state_simps truthy_def student_1_not_empty log_call_def failing_backend_def
  guarded_def

lemmas run_simps =
  mount_def draft_effect_def load_draft_def Analyse_1_in getSubjectStatus_def
  startPedagogy_def startEnvAudit_def setFormData_def log_call_def Let_def
  initialFormData_def Analyse_1_not_empty Analyse_1_not_env handleFormSubmit_def
  submission_def truthy_def progressStats_def refreshStats_def setup_student_def
  student_1_not_empty guarded_def

lemma matches_one: "filter (str_includes payload_one) GI_SUBJECTS = [Analyse_1]"
  by (simp add: payload_one_def GI_SUBJECTS_def Analyse_1_def js_def)

lemma matches_none: "filter (str_includes payload_none) GI_SUBJECTS = []"
  by (simp add: payload_none_def GI_SUBJECTS_def js_def)

lemma matches_two:
  "filter (str_includes payload_two) GI_SUBJECTS = [Analyse_1, js ''Anglais 1'']"
  by (simp add: payload_two_def GI_SUBJECTS_def Analyse_1_def js_def)

lemma run_draft_state: "run Try_after_notify failing_backend fill_two (mount Absent) = Some draft_state"
  by (simp add: fill_two_def draft_state_def partial_form_def run_simps)

lemma reopen_draft_state:
  "map_option formData (run Try_after_notify failing_backend [Welcome_start, Hub_subject Analyse_1] (reload draft_state))
   = Some partial_form"
  by (simp add: reload_def draft_state_def partial_form_def run_simps)

section \<open>The claims\<close>

text \<open>
  C1. The claim is that a form with all five answers of its subject always ends on the
  thanks screen, even when saving, analysing and notifying all fail. The handler has the
  \<open>catch\<close> clause that would do this (line 248 sets the step to \<open>Thanks\<close>), but
  no \<open>try\<close> opens before it, so nothing in the file puts the failing calls under that
  clause. For a full form of a student with an id, over the backend that rejects every
  call: the thanks screen is reached when the block is taken to open before the student
  check or before the save, and the step stays at \<open>Submitting\<close> for every later place;
  with an empty student id it stays at \<open>Submitting\<close> as soon as the block opens after
  the student check.
\<close>

theorem C1_catch_without_try:
  "non_null_count (formData (signed_in full_form)) = 5
   \<and> step (handleFormSubmit Try_before_check failing_backend (signed_in full_form)) = Thanks
   \<and> step (handleFormSubmit Try_before_save failing_backend (signed_in full_form)) = Thanks
   \<and> step (handleFormSubmit Try_before_analyze failing_backend (signed_in full_form))
       = Submitting
   \<and> step (handleFormSubmit Try_before_notify failing_backend (signed_in full_form))
       = Submitting
   \<and> step (handleFormSubmit Try_after_notify failing_backend (signed_in full_form))
       = Submitting
   \<and> calls (handleFormSubmit Try_after_notify failing_backend (signed_in full_form))
       = [SaveFeedback full_form student_1]
   \<and> non_null_count (formData (form_state full_form)) = 5
   \<and> step (handleFormSubmit Try_before_check failing_backend (form_state full_form)) = Thanks
   \<and> step (handleFormSubmit Try_before_save failing_backend (form_state full_form))
       = Submitting"
  by (simp add: submit_simps)

text \<open>
  C2. For every form state, the percentage of \<open>progressStats\<close> is
  100 times the non-null count over 5, rounded to the nearest integer, where the count
  ranges over q6..q10 for the environment audit and over q1..q5 otherwise; and
  \<open>handleFormSubmit\<close> stops at validation (banner and scroll, nothing else) exactly when
  that count is not 5.
\<close>

theorem C2_completion_and_validation:
  "percentage (progressStats (formData s)) = round (100 * of_nat (non_null_count (formData s)) / 5 :: rat)
   \<and> completed (progressStats (formData s)) = non_null_count (formData s)
   \<and> ((handleFormSubmit tp env s = log_call ScrollToTop (s\<lparr>showValidationErrors := True\<rparr>))
        \<longleftrightarrow> non_null_count (formData s) \<noteq> 5)"
proof -
  have a: "percentage (progressStats (formData s))
      = round (100 * of_nat (non_null_count (formData s)) / 5 :: rat)"
    by (simp only: percentage_eq round_spec)
  have b: "handleFormSubmit tp env s = log_call ScrollToTop (s\<lparr>showValidationErrors := True\<rparr>)"
    if "non_null_count (formData s) \<noteq> 5"
    using that non_null_count_le [of "formData s"]
    by (simp add: handleFormSubmit_def completed_count)
  have c: "handleFormSubmit tp env s \<noteq> log_call ScrollToTop (s\<lparr>showValidationErrors := True\<rparr>)"
    if "non_null_count (formData s) = 5"
  proof
    assume "handleFormSubmit tp env s = log_call ScrollToTop (s\<lparr>showValidationErrors := True\<rparr>)"
    then have "calls (handleFormSubmit tp env s) = calls s @ [ScrollToTop]"
      by (simp add: log_call_def)
    moreover have "\<not> completed (progressStats (formData s)) < 5"
      using that by (simp add: completed_count)
    ultimately show False using handleFormSubmit_full_calls by blast
  qed
  from a b c completed_count show ?thesis by blast
qed

text \<open>
  C3. With fewer than five of the subject's answers set, submitting only raises the
  validation banner and scrolls to the top: no call to \<open>saveFeedback\<close> is made, and the
  step, the form data and the stored draft are the same as before.
\<close>

theorem C3_incomplete_rejected:
  assumes "non_null_count (formData s) < 5"
  shows "handleFormSubmit tp env s = log_call ScrollToTop (s\<lparr>showValidationErrors := True\<rparr>)
    \<and> calls (handleFormSubmit tp env s) = calls s @ [ScrollToTop]
    \<and> showValidationErrors (handleFormSubmit tp env s)
    \<and> step (handleFormSubmit tp env s) = step s
    \<and> formData (handleFormSubmit tp env s) = formData s
    \<and> draft_entry (handleFormSubmit tp env s) = draft_entry s"
  using assms by (simp add: handleFormSubmit_def completed_count log_call_def)

text \<open>A pedagogy form with two answers out of five.\<close>

theorem C3_incomplete_rejected_witness:
  "non_null_count (formData (form_state partial_form)) < 5
   \<and> calls (handleFormSubmit Try_after_notify failing_backend (form_state partial_form)) = [ScrollToTop]
   \<and> showValidationErrors (handleFormSubmit Try_after_notify failing_backend (form_state partial_form))
   \<and> step (handleFormSubmit Try_after_notify failing_backend (form_state partial_form)) = Form_pedagogy
   \<and> formData (handleFormSubmit Try_after_notify failing_backend (form_state partial_form)) = partial_form
   \<and> draft_entry (handleFormSubmit Try_after_notify failing_backend (form_state partial_form)) = Json partial_form"
  using C3_incomplete_rejected [of "form_state partial_form" Try_after_notify failing_backend]
  by (simp add: form_state_simps partial_form_count log_call_def)

text \<open>
  C4. For every list of completed subjects and every value of the environment-audit flag,
  the global progress shown on the hub is 100 times (the length of the list, plus one
  when the audit is done) over (the number of subjects plus one), rounded to the nearest
  integer. There are 11 subjects, and with 3 completed subjects and the audit not done
  the progress is 25.
\<close>

theorem C4_global_progress: "globalProgression cs envDone
    = round (100 * of_nat (length cs + (if envDone then 1 else 0))
             / of_nat (length GI_SUBJECTS + 1) :: rat)
  \<and> length GI_SUBJECTS = 11
  \<and> globalProgression [x, y, z] False = 25"
proof -
  have a: "globalProgression cs envDone
    = round (100 * of_nat (length cs + (if envDone then 1 else 0))
             / of_nat (length GI_SUBJECTS + 1) :: rat)"
    unfolding globalProgression_def currentProgressCount_def totalStepsCount_def
      Math_round_eq_round
    by (simp only: ratio_percent)
  have "globalProgression [x, y, z] False = Math_round ((of_nat 3 / 12) * 100)"
    by (simp add: globalProgression_def currentProgressCount_def totalStepsCount_def
        length_GI_SUBJECTS)
  also have "\<dots> = 25" unfolding global_round by simp
  finally show ?thesis using a length_GI_SUBJECTS by simp
qed

text \<open>
  C5. The claim is that a finished subject, the environment audit included, can no longer
  be entered from the hub. The subject buttons are guarded (\<open>hub_subject_done_disabled\<close>),
  but the environment button calls \<open>startEnvAudit\<close> without looking at
  \<open>envAuditDone\<close>: once the history holds an environment entry and the hub shows the
  audit as closed, a click on that button still opens the environment form on a blank
  record.
\<close>

theorem C5_environment_entry_not_disabled:
  "map_option envAuditDone (run Try_after_notify failing_backend audit_done (mount Absent)) = Some True
   \<and> map_option step (run Try_after_notify failing_backend audit_done (mount Absent)) = Some Hub
   \<and> map_option step (run Try_after_notify failing_backend (audit_done @ [Hub_environment]) (mount Absent))
       = Some Form_env
   \<and> map_option formData (run Try_after_notify failing_backend (audit_done @ [Hub_environment]) (mount Absent))
       = Some (initialFormData\<lparr>subject := ENVIRONNEMENT_GLOBAL\<rparr>)"
  by (simp add: audit_done_def ENVIRONNEMENT_GLOBAL_def js_def mount_def draft_effect_def
      load_draft_def startEnvAudit_def setFormData_def log_call_def Let_def
      initialFormData_def refreshStats_def)

text \<open>
  C6. In every state the wizard reaches from a fresh mount, the store holds the current
  form data; after a reload the form data is read back unchanged, and entering the form
  of the same subject (\<open>startPedagogy\<close>, or \<open>startEnvAudit\<close> for the environment
  audit) resumes it without resetting any answer.
\<close>

theorem C6_draft_roundtrip:
  assumes "run tp env es (mount e0) = Some s"
  shows "draft_entry s = Json (formData s)
    \<and> formData (reload s) = formData s
    \<and> formData (startPedagogy (subject (formData s)) (reload s)) = formData s
    \<and> (subject (formData s) = ENVIRONNEMENT_GLOBAL \<longrightarrow>
          formData (startEnvAudit (reload s)) = formData s)"
proof -
  have saved: "draft_entry s = Json (formData s)"
    using run_saved [OF mount_saved assms] .
  then have r: "formData (reload s) = formData s" by (rule reload_formData)
  have p: "formData (startPedagogy (subject (formData s)) (reload s)) = formData s"
    using startPedagogy_same [of "reload s"] r by simp
  have e: "formData (startEnvAudit (reload s)) = formData s"
    if "subject (formData s) = ENVIRONNEMENT_GLOBAL"
    using startEnvAudit_same [of "reload s"] r that by simp
  from saved r p e show ?thesis by blast
qed

text \<open>
  Two answers out of five for "Analyse 1", then a reload and the same subject chosen on
  the hub.
\<close>

theorem C6_draft_roundtrip_witness:
  "run Try_after_notify failing_backend fill_two (mount Absent) = Some draft_state
   \<and> non_null_count (formData draft_state) = 2
   \<and> formData (reload draft_state) = formData draft_state
   \<and> formData (startPedagogy (subject (formData draft_state)) (reload draft_state))
       = formData draft_state
   \<and> map_option formData
        (run Try_after_notify failing_backend [Welcome_start, Hub_subject Analyse_1] (reload draft_state))
       = Some (formData draft_state)"
  using C6_draft_roundtrip [OF run_draft_state] run_draft_state reopen_draft_state
  by (simp add: draft_state_def partial_form_count)

text \<open>
  C7. While the scanner is shown: a decoded payload that contains exactly one of the known
  subject names, \<open>x\<close>, starts the pedagogy form of \<open>x\<close>; a payload that contains none
  of them changes nothing, so the scanner stays.
\<close>

theorem C7_scan_one_or_none:
  assumes "step s = Scanner"
  shows "(x \<in> set GI_SUBJECTS \<and> str_includes d x
            \<and> (\<forall>y \<in> set GI_SUBJECTS. str_includes d y \<longrightarrow> y = x)
          \<longrightarrow> fire tp env (Scanned d) s = Some (startPedagogy x s)
              \<and> step (startPedagogy x s) = Form_pedagogy
              \<and> subject (formData (startPedagogy x s)) = x)
       \<and> ((\<forall>y \<in> set GI_SUBJECTS. \<not> str_includes d y)
          \<longrightarrow> fire tp env (Scanned d) s = Some s)"
proof -
  define m where "m = filter (str_includes d) GI_SUBJECTS"
  have one: "fire tp env (Scanned d) s = Some (startPedagogy x s)"
    if a: "x \<in> set GI_SUBJECTS" and b: "str_includes d x"
      and c: "\<forall>y \<in> set GI_SUBJECTS. str_includes d y \<longrightarrow> y = x"
  proof -
    have "x \<in> set m" unfolding m_def using a b by simp
    then have ne: "m \<noteq> []" by auto
    then have "hd m \<in> set m" by (rule hd_in_set)
    then have "hd m \<in> set GI_SUBJECTS \<and> str_includes d (hd m)" unfolding m_def by simp
    then have "hd m = x" using c by blast
    then show ?thesis using assms onScan_match [of d s] ne unfolding m_def by simp
  qed
  have none: "fire tp env (Scanned d) s = Some s"
    if "\<forall>y \<in> set GI_SUBJECTS. \<not> str_includes d y"
  proof -
    have "filter (str_includes d) GI_SUBJECTS = []"
      using that by (simp only: filter_empty_conv)
    then show ?thesis using assms onScan_no_match [of d s] by simp
  qed
  show ?thesis
    using one none startPedagogy_subject [of x s] startPedagogy_step [of x s]
    by (intro conjI impI) (elim conjE, assumption+)
qed

text \<open>One payload naming "Analyse 1" only, one naming no subject.\<close>

theorem C7_scan_one_or_none_witness:
  "step scanner_state = Scanner
   \<and> filter (str_includes payload_one) GI_SUBJECTS = [Analyse_1]
   \<and> fire Try_after_notify failing_backend (Scanned payload_one) scanner_state
       = Some (startPedagogy Analyse_1 scanner_state)
   \<and> step (startPedagogy Analyse_1 scanner_state) = Form_pedagogy
   \<and> subject (formData (startPedagogy Analyse_1 scanner_state)) = Analyse_1
   \<and> filter (str_includes payload_none) GI_SUBJECTS = []
   \<and> fire Try_after_notify failing_backend (Scanned payload_none) scanner_state = Some scanner_state"
proof -
  have st: "step scanner_state = Scanner" by (simp add: scanner_state_def)
  have "set (filter (str_includes payload_one) GI_SUBJECTS) = {Analyse_1}"
    by (simp only: matches_one) simp
  then have h1: "Analyse_1 \<in> set GI_SUBJECTS \<and> str_includes payload_one Analyse_1
     \<and> (\<forall>y \<in> set GI_SUBJECTS. str_includes payload_one y \<longrightarrow> y = Analyse_1)"
    by auto
  have h2: "\<forall>y \<in> set GI_SUBJECTS. \<not> str_includes payload_none y"
    using matches_none by (simp only: filter_empty_conv)
  show ?thesis
    using st h1 h2 matches_one matches_none
      C7_scan_one_or_none [OF st, of Analyse_1 payload_one Try_after_notify failing_backend]
      C7_scan_one_or_none [OF st, of Analyse_1 payload_none Try_after_notify failing_backend]
    by blast
qed

text \<open>
  C8, as amended. From the thanks screen an event leads to the hub (the button of that
  screen) or to the welcome screen (the header logo, which every screen shows); every
  other event that can occur there leaves the step at \<open>Thanks\<close>.
\<close>

theorem C8_thanks_transitions:
  assumes "step s = Thanks" and "fire tp env e s = Some s'"
  shows "step s' = (if e = Thanks_back then Hub else if e = Header_logo then Welcome else Thanks)"
  using assms
  by (cases e)
    (auto simp: setup_student_def refreshStats_def log_call_def setFormData_def
      draft_effect_def split: if_splits sum.splits)

text \<open>
  The claim as stated, that the hub is the only step reachable from the thanks screen,
  fails: after a form submitted with success the header logo leads to the welcome screen.
  No call fails on the way, so this is so wherever the missing \<open>try\<close> stands.
\<close>

theorem C8_thanks_to_welcome_counterexample:
  "map_option step (run Try_before_check accepting_backend fill_and_submit (mount Absent))
     = Some Thanks
   \<and> map_option step
        (run Try_before_check accepting_backend (fill_and_submit @ [Header_logo]) (mount Absent))
     = Some Welcome
   \<and> map_option step (run Try_before_save accepting_backend fill_and_submit (mount Absent))
     = Some Thanks
   \<and> map_option step
        (run Try_before_save accepting_backend (fill_and_submit @ [Header_logo]) (mount Absent))
     = Some Welcome
   \<and> map_option step (run Try_before_analyze accepting_backend fill_and_submit (mount Absent))
     = Some Thanks
   \<and> map_option step
        (run Try_before_analyze accepting_backend (fill_and_submit @ [Header_logo]) (mount Absent))
     = Some Welcome
   \<and> map_option step (run Try_before_notify accepting_backend fill_and_submit (mount Absent))
     = Some Thanks
   \<and> map_option step
        (run Try_before_notify accepting_backend (fill_and_submit @ [Header_logo]) (mount Absent))
     = Some Welcome
   \<and> map_option step (run Try_after_notify accepting_backend fill_and_submit (mount Absent))
     = Some Thanks
   \<and> map_option step
        (run Try_after_notify accepting_backend (fill_and_submit @ [Header_logo]) (mount Absent))
     = Some Welcome"
  by (simp add: fill_and_submit_def accepting_backend_def run_simps
      Analyse_1_not_empty [symmetric])

text \<open>The button of the thanks screen.\<close>

theorem C8_thanks_transitions_witness:
  "step thanks_state = Thanks
   \<and> fire Try_after_notify failing_backend Thanks_back thanks_state = Some (thanks_state\<lparr>step := Hub\<rparr>)
   \<and> step (thanks_state\<lparr>step := Hub\<rparr>) = Hub"
  using C8_thanks_transitions [of thanks_state Try_after_notify failing_backend Thanks_back "thanks_state\<lparr>step := Hub\<rparr>"]
  by (simp add: thanks_state_def)

text \<open>
  C9. A failed identity initialisation only logs the error, so an empty student id stays
  empty. Submitting a full form in that state is blocked without a word to the user,
  wherever the missing \<open>try\<close> stands: no call is made (nothing is saved, no alert),
  the validation banner is untouched, and the only change is the step, which becomes
  \<open>Thanks\<close> when the \<open>catch\<close> clause guards the student check and stays at
  \<open>Submitting\<close> otherwise.
\<close>

theorem C9_identity_failure:
  assumes "studentId s = []" and "non_null_count (formData s) = 5"
  shows "setup_student (Inl err) s = log_call ConsoleError s
    \<and> studentId (setup_student (Inl err) s) = []
    \<and> handleFormSubmit tp env (setup_student (Inl err) s)
        = (setup_student (Inl err) s)
            \<lparr>step := (if guarded tp Student_check then Thanks else Submitting)\<rparr>
    \<and> calls (handleFormSubmit tp env (setup_student (Inl err) s)) = calls s @ [ConsoleError]
    \<and> showValidationErrors (handleFormSubmit tp env (setup_student (Inl err) s))
        = showValidationErrors s"
  using assms
  by (simp add: setup_student_def log_call_def handleFormSubmit_def submission_def truthy_def
      completed_count)

text \<open>
  A full form, a rejected \<open>initStudent\<close>, then the submission, with the student check
  guarded and not guarded.
\<close>

theorem C9_identity_failure_witness:
  "studentId (form_state full_form) = []
   \<and> non_null_count (formData (form_state full_form)) = 5
   \<and> studentId (setup_student (Inl Rejected) (form_state full_form)) = []
   \<and> step (handleFormSubmit Try_before_check failing_backend
        (setup_student (Inl Rejected) (form_state full_form))) = Thanks
   \<and> calls (handleFormSubmit Try_before_check failing_backend
        (setup_student (Inl Rejected) (form_state full_form))) = [ConsoleError]
   \<and> step (handleFormSubmit Try_before_save failing_backend
        (setup_student (Inl Rejected) (form_state full_form))) = Submitting
   \<and> calls (handleFormSubmit Try_before_save failing_backend
        (setup_student (Inl Rejected) (form_state full_form))) = [ConsoleError]"
proof -
  let ?s = "setup_student (Inl Rejected) (form_state full_form)"
  have h: "studentId (form_state full_form) = []"
    "non_null_count (formData (form_state full_form)) = 5"
    by (simp_all add: form_state_simps full_form_count)
  note r1 = C9_identity_failure [OF h, of Rejected Try_before_check failing_backend]
  note r2 = C9_identity_failure [OF h, of Rejected Try_before_save failing_backend]
  from r1 have a: "studentId ?s = []" by blast
  from r1 have "handleFormSubmit Try_before_check failing_backend ?s
      = ?s\<lparr>step := (if guarded Try_before_check Student_check then Thanks else Submitting)\<rparr>"
    by blast
  then have b1: "step (handleFormSubmit Try_before_check failing_backend ?s) = Thanks"
    by (simp add: guarded_def)
  from r2 have "handleFormSubmit Try_before_save failing_backend ?s
      = ?s\<lparr>step := (if guarded Try_before_save Student_check then Thanks else Submitting)\<rparr>"
    by blast
  then have b2: "step (handleFormSubmit Try_before_save failing_backend ?s) = Submitting"
    by (simp add: guarded_def)
  from r1 have "calls (handleFormSubmit Try_before_check failing_backend ?s)
      = calls (form_state full_form) @ [ConsoleError]"
    by blast
  then have c1: "calls (handleFormSubmit Try_before_check failing_backend ?s) = [ConsoleError]"
    by (simp only: form_state_simps append_Nil)
  from r2 have "calls (handleFormSubmit Try_before_save failing_backend ?s)
      = calls (form_state full_form) @ [ConsoleError]"
    by blast
  then have c2: "calls (handleFormSubmit Try_before_save failing_backend ?s) = [ConsoleError]"
    by (simp only: form_state_simps append_Nil)
  from h a b1 b2 c1 c2 show ?thesis by blast
qed

text \<open>
  C10. While the scanner is shown, a payload that contains two or more known subject names
  starts the pedagogy form of the first of them in the order of \<open>GI_SUBJECTS\<close> (the head
  of the matching names in list order), and of no other matching subject.
\<close>

theorem C10_scan_first_in_list_order:
  assumes "step s = Scanner" and "2 \<le> length (filter (str_includes d) GI_SUBJECTS)"
  shows "fire tp env (Scanned d) s = Some (startPedagogy (hd (filter (str_includes d) GI_SUBJECTS)) s)
    \<and> step (startPedagogy (hd (filter (str_includes d) GI_SUBJECTS)) s) = Form_pedagogy
    \<and> subject (formData (startPedagogy (hd (filter (str_includes d) GI_SUBJECTS)) s))
        = hd (filter (str_includes d) GI_SUBJECTS)
    \<and> (\<forall>y \<in> set (tl (filter (str_includes d) GI_SUBJECTS)).
          subject (formData (startPedagogy (hd (filter (str_includes d) GI_SUBJECTS)) s)) \<noteq> y)"
proof -
  define m where "m = filter (str_includes d) GI_SUBJECTS"
  have ne: "m \<noteq> []" using assms(2) unfolding m_def by auto
  have "distinct m" unfolding m_def using GI_SUBJECTS_distinct by (rule distinct_filter)
  then have "hd m \<notin> set (tl m)" using ne by (cases m) auto
  then have other: "\<forall>y \<in> set (tl m). subject (formData (startPedagogy (hd m) s)) \<noteq> y"
    by (auto simp only: startPedagogy_subject)
  have f: "fire tp env (Scanned d) s = Some (startPedagogy (hd m) s)"
    using assms(1) onScan_match [of d s] ne unfolding m_def by simp
  show ?thesis
    unfolding m_def [symmetric]
    using f other startPedagogy_subject [of "hd m" s] startPedagogy_step [of "hd m" s]
    by (intro conjI)
qed

text \<open>
  "Anglais 1" comes first in the payload, "Analyse 1" first in the list: the list decides.
\<close>

theorem C10_scan_first_in_list_order_witness:
  "step scanner_state = Scanner
   \<and> 2 \<le> length (filter (str_includes payload_two) GI_SUBJECTS)
   \<and> hd (filter (str_includes payload_two) GI_SUBJECTS) = Analyse_1
   \<and> fire Try_after_notify failing_backend (Scanned payload_two) scanner_state
       = Some (startPedagogy Analyse_1 scanner_state)
   \<and> subject (formData (startPedagogy Analyse_1 scanner_state)) = Analyse_1"
  using C10_scan_first_in_list_order [of scanner_state payload_two Try_after_notify failing_backend]
  by (simp add: matches_two scanner_state_def)

end
